theory Spec2Isabelle
  imports Main
begin

section \<open>The job list of tsh (src/tsh.c)\<close>

text \<open>
  The shell keeps its jobs in a global array \<^verbatim>\<open>struct job_t jobs[MAXJOBS]\<close>
  and a global counter \<^verbatim>\<open>nextjid\<close>. The C types \<^verbatim>\<open>int\<close> and \<^verbatim>\<open>pid_t\<close> are
  modelled as \<^typ>\<open>int\<close>: signed overflow is undefined in C, there is no wrap-around to
  write out, and the model agrees with the code on every run that stays inside 32 bits.
  The one conversion the C library defines, the result of \<^verbatim>\<open>atoi\<close>, is written out.
  The array is a list of slots; a pointer into the array is the index of the slot.
\<close>

definition MAXJOBS :: nat where
  "MAXJOBS = 16"

definition UNDEF :: int where
  "UNDEF = 0"

definition FG :: int where
  "FG = 1"

definition BG :: int where
  "BG = 2"

definition ST :: int where
  "ST = 3"

text \<open>The signal numbers of \<^verbatim>\<open><signal.h>\<close> on Linux (x86, ARM).\<close>

definition SIGINT :: int where
  "SIGINT = 2"

definition SIGCONT :: int where
  "SIGCONT = 18"

definition SIGTSTP :: int where
  "SIGTSTP = 20"

record job_t =
  pid :: int
  jid :: int
  state :: int
  cmdline :: string

text \<open>
  The globals of the shell, and what it has done to the outside: \<open>out\<close> holds the
  strings written to stdout, one per \<^verbatim>\<open>printf\<close>, and \<open>sent\<close> the calls of
  \<^verbatim>\<open>kill(pid, sig)\<close> made, each as the pair of its arguments, both in order.
\<close>

record shell =
  jobs :: "job_t list"
  nextjid :: int
  verbose :: int
  check_fg :: int
  out :: "string list"
  sent :: "(int \<times> int) list"

text \<open>
  How a run of the shell's code stops other than by returning: \<^verbatim>\<open>exit(n)\<close>, or
  undefined behaviour (an array access outside \<^verbatim>\<open>jobs[0..MAXJOBS-1]\<close>, a store
  or a read through a null pointer).
\<close>

datatype halt = Exit int | OutOfBounds | NullDeref

type_synonym 'a result = "(halt \<times> shell) + 'a"

subsection \<open>printf's %d\<close>

fun digits :: "nat \<Rightarrow> string" where
  "digits n = (if n < 10 then [''0123456789'' ! n]
               else digits (n div 10) @ [''0123456789'' ! (n mod 10)])"

definition show_int :: "int \<Rightarrow> string" where
  "show_int i = (if i < 0 then CHR ''-'' # digits (nat (- i)) else digits (nat i))"

subsection \<open>Helper routines that manipulate the job list\<close>

text \<open>\<^verbatim>\<open>clearjob\<close>: clear the entries of a job struct.\<close>

definition clearjob :: "job_t \<Rightarrow> job_t" where
  "clearjob j = j\<lparr>pid := 0, jid := 0, state := UNDEF, cmdline := []\<rparr>"

text \<open>\<^verbatim>\<open>initjobs\<close>: the loop clears each of the \<open>MAXJOBS\<close> slots.\<close>

definition initjobs :: "job_t list \<Rightarrow> job_t list" where
  "initjobs js = map clearjob js"

text \<open>\<^verbatim>\<open>maxjid\<close>: \<^verbatim>\<open>max = 0; for each slot: if (jobs[i].jid > max) max = jobs[i].jid\<close>.\<close>

definition maxjid :: "job_t list \<Rightarrow> int" where
  "maxjid js = foldl (\<lambda>mx j. if jid j > mx then jid j else mx) 0 js"

text \<open>
  The search loop shared by the routines below,
  \<^verbatim>\<open>for (i = 0; i < MAXJOBS; i++) if (P(jobs[i])) ...\<close>:
  the index of the first slot that satisfies the test, if any. The list always has
  \<open>MAXJOBS\<close> slots (\<open>length_jobs_init_shell\<close>, \<open>length_jobs_addjob\<close> and
  \<open>length_jobs_deletejob\<close> below; the other writes are updates at an index), so
  running over the list is running \<open>i\<close> from 0 to \<open>MAXJOBS - 1\<close>.
\<close>

fun find_slot :: "(job_t \<Rightarrow> bool) \<Rightarrow> job_t list \<Rightarrow> nat option" where
  "find_slot P [] = None"
| "find_slot P (j # js) = (if P j then Some 0 else map_option Suc (find_slot P js))"

text \<open>\<^verbatim>\<open>addjob\<close>: add a job to the job list. Returns 1 on success, 0 otherwise.\<close>

definition addjob :: "shell \<Rightarrow> int \<Rightarrow> int \<Rightarrow> string \<Rightarrow> int \<times> shell" where
  "addjob s p st cmd =
    (if p < 1 then (0, s)
     else case find_slot (\<lambda>j. pid j = 0) (jobs s) of
       Some i \<Rightarrow>
         (let j1 = (jobs s ! i)\<lparr>pid := p, state := st, jid := nextjid s, cmdline := cmd\<rparr>;
              n1 = nextjid s + 1;
              n2 = (if n1 > int MAXJOBS then 1 else n1);
              s1 = s\<lparr>jobs := (jobs s)[i := j1], nextjid := n2\<rparr>
          in (1, if verbose s = 0 then s1
                 else s1\<lparr>out := out s1 @
                   [''Added job ['' @ show_int (jid j1) @ ''] '' @ show_int (pid j1) @
                    '' '' @ cmdline j1 @ [CHR 0x0A]]\<rparr>))
     | None \<Rightarrow> (0, s\<lparr>out := out s @ [''Tried to create too many jobs'' @ [CHR 0x0A]]\<rparr>))"

text \<open>\<^verbatim>\<open>deletejob\<close>: delete the job whose PID is \<open>p\<close> from the job list.\<close>

definition deletejob :: "shell \<Rightarrow> int \<Rightarrow> int \<times> shell" where
  "deletejob s p =
    (if p < 1 then (0, s)
     else case find_slot (\<lambda>j. pid j = p) (jobs s) of
       Some i \<Rightarrow>
         (let js = (jobs s)[i := clearjob (jobs s ! i)]
          in (1, s\<lparr>jobs := js, nextjid := maxjid js + 1\<rparr>))
     | None \<Rightarrow> (0, s))"

text \<open>\<^verbatim>\<open>fgpid\<close>: the PID of the current foreground job, 0 if there is none.\<close>

definition fgpid :: "job_t list \<Rightarrow> int" where
  "fgpid js = (case find_slot (\<lambda>j. state j = FG) js of Some i \<Rightarrow> pid (js ! i) | None \<Rightarrow> 0)"

text \<open>\<^verbatim>\<open>getjobpid\<close>, \<^verbatim>\<open>getjobjid\<close>: a pointer to the job, \<open>None\<close> for \<^verbatim>\<open>NULL\<close>.\<close>

definition getjobpid :: "job_t list \<Rightarrow> int \<Rightarrow> nat option" where
  "getjobpid js p = (if p < 1 then None else find_slot (\<lambda>j. pid j = p) js)"

definition getjobjid :: "job_t list \<Rightarrow> int \<Rightarrow> nat option" where
  "getjobjid js i = (if i < 1 then None else find_slot (\<lambda>j. jid j = i) js)"

text \<open>\<^verbatim>\<open>pid2jid\<close>: map a process ID to a job ID, 0 if there is no such job.\<close>

definition pid2jid :: "job_t list \<Rightarrow> int \<Rightarrow> int" where
  "pid2jid js p =
    (if p < 1 then 0
     else case find_slot (\<lambda>j. pid j = p) js of Some i \<Rightarrow> jid (js ! i) | None \<Rightarrow> 0)"

text \<open>
  The globals as \<^verbatim>\<open>main\<close> has them when it enters its read/eval loop: the array is
  zero-initialised static storage cleared by \<^verbatim>\<open>initjobs\<close>, \<^verbatim>\<open>nextjid\<close> is 1.
\<close>

definition init_shell :: shell where
  "init_shell =
    \<lparr>jobs = initjobs (replicate MAXJOBS \<lparr>pid = 0, jid = 0, state = 0, cmdline = []\<rparr>),
     nextjid = 1, verbose = 0, check_fg = 0, out = [], sent = []\<rparr>"

text \<open>
  An element access \<^verbatim>\<open>jobs[i]\<close> with a computed index is inside the array when
  \<open>in_jobs\<close> holds; outside it the behaviour of the C program is undefined.
\<close>

definition in_jobs :: "job_t list \<Rightarrow> int \<Rightarrow> bool" where
  "in_jobs js i = (0 \<le> i \<and> i < int (length js))"

subsection \<open>The operating system, as far as the shell sees it\<close>

text \<open>
  \<open>kill_rv\<close> is the value \<^verbatim>\<open>kill(pid, sig)\<close> returns, \<open>strerror_errno\<close> the text
  of \<^verbatim>\<open>strerror(errno)\<close> after a failed call.
\<close>

record os =
  kill_rv :: "int \<Rightarrow> int \<Rightarrow> int"
  strerror_errno :: string

text \<open>
  The status \<^verbatim>\<open>waitpid\<close> reports for a child, decoded as the macros
  \<^verbatim>\<open>WIFEXITED\<close>, \<^verbatim>\<open>WIFSIGNALED\<close> (with \<^verbatim>\<open>WTERMSIG\<close>) and \<^verbatim>\<open>WIFSTOPPED\<close>
  (with \<^verbatim>\<open>WSTOPSIG\<close>) read it.
\<close>

datatype wstatus = WExited int | WSignaled int | WStopped int

text \<open>
  A signal delivered to the shell. \<open>SIGCHLD_ev\<close> carries what the successive calls of
  \<^verbatim>\<open>waitpid(-1, &status, WNOHANG|WUNTRACED)\<close> in the handler return: the children
  that have changed state, as pairs of pid and status.
\<close>

datatype sig_event = SIGCHLD_ev "(int \<times> wstatus) list" | SIGINT_ev | SIGTSTP_ev | SIGQUIT_ev

subsection \<open>Other helper routines\<close>

text \<open>\<^verbatim>\<open>unix_error\<close>: print the message and \<^verbatim>\<open>strerror(errno)\<close>, then \<^verbatim>\<open>exit(1)\<close>.\<close>

definition unix_error :: "os \<Rightarrow> string \<Rightarrow> shell \<Rightarrow> halt \<times> shell" where
  "unix_error w msg s =
    (Exit 1, s\<lparr>out := out s @ [msg @ '': '' @ strerror_errno w @ [CHR 0x0A]]\<rparr>)"

text \<open>
  \<^verbatim>\<open>atoi\<close> of the C library, as glibc on 64-bit Linux has it:
  \<^verbatim>\<open>(int) strtol(str, NULL, 10)\<close>. \<^verbatim>\<open>strtol\<close> skips white space, reads a sign,
  then decimal digits up to the first other character; a value outside \<^verbatim>\<open>long\<close>
  (64 bits) is replaced by \<^verbatim>\<open>LONG_MAX\<close> or \<^verbatim>\<open>LONG_MIN\<close>. The conversion to
  \<^verbatim>\<open>int\<close> keeps the low 32 bits, read as two's complement.
\<close>

definition isspace :: "char \<Rightarrow> bool" where
  "isspace c = (c = CHR '' '' \<or> c = CHR 0x09 \<or> c = CHR 0x0A \<or> c = CHR 0x0B \<or>
                c = CHR 0x0C \<or> c = CHR 0x0D)"

definition isdigit :: "char \<Rightarrow> bool" where
  "isdigit c = (48 \<le> (of_char c :: nat) \<and> (of_char c :: nat) \<le> 57)"

fun atoi_digits :: "int \<Rightarrow> string \<Rightarrow> int" where
  "atoi_digits acc [] = acc"
| "atoi_digits acc (c # cs) =
    (if isdigit c then atoi_digits (10 * acc + (of_char c - 48)) cs else acc)"

definition strtol :: "string \<Rightarrow> int" where
  "strtol str =
    (let v = (case dropWhile isspace str of
                [] \<Rightarrow> 0
              | c # cs \<Rightarrow>
                  if c = CHR ''-'' then - atoi_digits 0 cs
                  else if c = CHR ''+'' then atoi_digits 0 cs
                  else atoi_digits 0 (c # cs))
     in if v > 2 ^ 63 - 1 then 2 ^ 63 - 1
        else if v < - (2 ^ 63) then - (2 ^ 63)
        else v)"

definition int_of_long :: "int \<Rightarrow> int" where
  "int_of_long v = (v + 2 ^ 31) mod 2 ^ 32 - 2 ^ 31"

definition atoi :: "string \<Rightarrow> int" where
  "atoi str = int_of_long (strtol str)"

subsection \<open>Signal handlers\<close>

text \<open>
  One round of the loop of \<^verbatim>\<open>sigchld_handler\<close>, for the child \<open>p\<close> that
  \<^verbatim>\<open>waitpid\<close> returned with status \<open>w\<close>.
\<close>

definition sigchld_step :: "int \<Rightarrow> wstatus \<Rightarrow> shell \<Rightarrow> shell result" where
  "sigchld_step p w s =
    (let j = pid2jid (jobs s) p in
     if \<not> in_jobs (jobs s) (j - 1) then Inl (OutOfBounds, s)
     else
       let s1 = (if state (jobs s ! nat (j - 1)) = FG then s\<lparr>check_fg := 1\<rparr> else s) in
       case w of
         WExited c \<Rightarrow> Inr (snd (deletejob s1 p))
       | WSignaled sg \<Rightarrow>
           if sg = SIGINT then
             (let s2 = snd (deletejob s1 p) in
              Inr (s2\<lparr>out := out s2 @
                [''job ['' @ show_int j @ ''] ('' @ show_int p @ '') terminated by signal '' @
                 show_int SIGINT @ [CHR 0x0A]]\<rparr>))
           else Inr s1
       | WStopped sg \<Rightarrow>
           (case getjobpid (jobs s1) p of
              None \<Rightarrow> Inl (NullDeref, s1)
            | Some i \<Rightarrow>
                Inr (s1\<lparr>jobs := (jobs s1)[i := (jobs s1 ! i)\<lparr>state := ST\<rparr>],
                        out := out s1 @
                [''job ['' @ show_int j @ ''] ('' @ show_int p @ '') stopped by signal '' @
                 show_int SIGTSTP @ [CHR 0x0A]]\<rparr>)))"

text \<open>The loop \<^verbatim>\<open>while ((pid = waitpid(...)) > 0)\<close>.\<close>

fun sigchld_loop :: "(int \<times> wstatus) list \<Rightarrow> shell \<Rightarrow> shell result" where
  "sigchld_loop [] s = Inr s"
| "sigchld_loop ((p, w) # rest) s =
    (if p > 0 then
       (case sigchld_step p w s of Inl e \<Rightarrow> Inl e | Inr s' \<Rightarrow> sigchld_loop rest s')
     else Inr s)"

definition sigchld_handler :: "(int \<times> wstatus) list \<Rightarrow> shell \<Rightarrow> shell result" where
  "sigchld_handler pending s = sigchld_loop pending (s\<lparr>check_fg := 0\<rparr>)"

definition sigint_handler :: "os \<Rightarrow> shell \<Rightarrow> shell result" where
  "sigint_handler w s =
    (let p = fgpid (jobs s);
         s1 = s\<lparr>sent := sent s @ [(- p, SIGINT)]\<rparr>
     in if kill_rv w (- p) SIGINT < 0
        then Inl (unix_error w (''kill error'' @ [CHR 0x0A]) s1)
        else Inr s1)"

definition sigtstp_handler :: "os \<Rightarrow> shell \<Rightarrow> shell result" where
  "sigtstp_handler w s =
    (let p = fgpid (jobs s);
         s1 = s\<lparr>sent := sent s @ [(- p, SIGTSTP)]\<rparr>
     in if kill_rv w (- p) SIGTSTP < 0
        then Inl (unix_error w (''kill error'' @ [CHR 0x0A]) s1)
        else
          (let i = pid2jid (jobs s1) p - 1 in
           if \<not> in_jobs (jobs s1) i then Inl (OutOfBounds, s1)
           else Inr (s1\<lparr>jobs := (jobs s1)[nat i := (jobs s1 ! nat i)\<lparr>state := ST\<rparr>]\<rparr>)))"

definition sigquit_handler :: "shell \<Rightarrow> shell result" where
  "sigquit_handler s =
    Inl (Exit 1, s\<lparr>out := out s @
      [''Terminating after receipt of SIGQUIT signal'' @ [CHR 0x0A]]\<rparr>)"

definition run_handler :: "os \<Rightarrow> sig_event \<Rightarrow> shell \<Rightarrow> shell result" where
  "run_handler w ev s =
    (case ev of
       SIGCHLD_ev pending \<Rightarrow> sigchld_handler pending s
     | SIGINT_ev \<Rightarrow> sigint_handler w s
     | SIGTSTP_ev \<Rightarrow> sigtstp_handler w s
     | SIGQUIT_ev \<Rightarrow> sigquit_handler s)"

subsection \<open>Waiting for the foreground job\<close>

text \<open>
  \<^verbatim>\<open>pause()\<close> suspends the shell until a signal has been delivered and its handler
  has returned. The signals still to come are a list; with none left the shell sleeps
  for ever, which is the value \<open>None\<close>. A handler that exits ends the run. Handlers
  run only inside \<^verbatim>\<open>pause\<close> here: a signal that arrives between two statements of the
  main path is not modelled.
\<close>

definition pause :: "os \<Rightarrow> sig_event list \<Rightarrow> shell \<Rightarrow> (shell result \<times> sig_event list) option" where
  "pause w evs s =
    (case evs of
       [] \<Rightarrow> None
     | ev # rest \<Rightarrow> Some (run_handler w ev s, rest))"

text \<open>
  \<^verbatim>\<open>waitfg\<close>: \<^verbatim>\<open>check_fg = 0; pause(); if (!check_fg) pause(); return;\<close>
  The argument \<open>p\<close> is not used by the code.
\<close>

definition waitfg :: "os \<Rightarrow> int \<Rightarrow> sig_event list \<Rightarrow> shell \<Rightarrow> (shell result \<times> sig_event list) option" where
  "waitfg w p evs s =
    (case pause w evs (s\<lparr>check_fg := 0\<rparr>) of
       None \<Rightarrow> None
     | Some (Inl h, rest) \<Rightarrow> Some (Inl h, rest)
     | Some (Inr s1, rest) \<Rightarrow>
         if check_fg s1 = 0 then pause w rest s1 else Some (Inr s1, rest))"

subsection \<open>The builtin bg and fg commands\<close>

text \<open>
  \<^verbatim>\<open>do_bgfg\<close>. \<open>argv\<close> is the argument vector up to its terminating \<^verbatim>\<open>NULL\<close>;
  \<^verbatim>\<open>argv[1] + 1\<close> is the tail of the second word. An empty second word (typed as
  two quotes) lies in the line buffer of \<^verbatim>\<open>parseline\<close> with the rest of the line
  behind it: \<^verbatim>\<open>atoi\<close> reads there, its value is not used, and the first character
  tested is the terminating \<^verbatim>\<open>'\0'\<close>, which is neither a digit nor a percent sign.
\<close>

definition do_bgfg :: "os \<Rightarrow> string list \<Rightarrow> sig_event list \<Rightarrow> shell \<Rightarrow> (shell result \<times> sig_event list) option" where
  "do_bgfg w argv evs s =
    (case argv of
       [] \<Rightarrow> Some (Inl (NullDeref, s), evs)
     | [c] \<Rightarrow>
         Some (Inr (s\<lparr>out := out s @
           [c @ '' requires PID or %jobid argument'' @ [CHR 0x0A]]\<rparr>), evs)
     | c # a # _ \<Rightarrow>
        (case a of
           [] \<Rightarrow>
             Some (Inr (s\<lparr>out := out s @
               [c @ '': argument must be a PID or %jobid'' @ [CHR 0x0A]]\<rparr>), evs)
         | a0 # a1 \<Rightarrow>
            (let arg = atoi a1 in
             if (of_char a0 < (48 :: nat) \<or> of_char a0 > (57 :: nat)) \<and> a0 \<noteq> CHR ''%'' then
               Some (Inr (s\<lparr>out := out s @
                 [c @ '': argument must be a PID or %jobid'' @ [CHR 0x0A]]\<rparr>), evs)
             else if a0 = CHR ''%'' \<and> getjobjid (jobs s) arg = None then
               Some (Inr (s\<lparr>out := out s @
                 [''%'' @ show_int arg @ '': No such job'' @ [CHR 0x0A]]\<rparr>), evs)
             else if a0 \<noteq> CHR ''%'' \<and> getjobpid (jobs s) arg = None then
               Some (Inr (s\<lparr>out := out s @
                 [''('' @ show_int arg @ ''): No such process'' @ [CHR 0x0A]]\<rparr>), evs)
             else if c = ''bg'' then
               (let j = atoi a1 in
                if a0 = CHR ''%'' then
                  (if \<not> in_jobs (jobs s) (j - 1) then Some (Inl (OutOfBounds, s), evs)
                   else
                     let i = nat (j - 1);
                         s1 = s\<lparr>sent := sent s @ [(- pid (jobs s ! i), SIGCONT)]\<rparr>;
                         s2 = s1\<lparr>jobs := (jobs s1)[i := (jobs s1 ! i)\<lparr>state := BG\<rparr>]\<rparr>
                     in Some (Inr (s2\<lparr>out := out s2 @
                          [''['' @ show_int j @ ''] ('' @ show_int (pid (jobs s2 ! i)) @ '') '' @
                           cmdline (jobs s2 ! i)]\<rparr>), evs))
                else
                  (let p = j;
                       j' = pid2jid (jobs s) p;
                       s1 = s\<lparr>sent := sent s @ [(- p, SIGCONT)]\<rparr>
                   in if \<not> in_jobs (jobs s1) (j' - 1) then Some (Inl (OutOfBounds, s1), evs)
                      else
                        let i = nat (j' - 1);
                            s2 = s1\<lparr>jobs := (jobs s1)[i := (jobs s1 ! i)\<lparr>state := BG\<rparr>]\<rparr>
                        in Some (Inr (s2\<lparr>out := out s2 @
                             [''['' @ show_int j' @ ''] ('' @ show_int p @ '') '' @
                              cmdline (jobs s2 ! i)]\<rparr>), evs)))
             else if c = ''fg'' then
               (let j = atoi a1 in
                if a0 = CHR ''%'' then
                  (if \<not> in_jobs (jobs s) (j - 1) then Some (Inl (OutOfBounds, s), evs)
                   else
                     let i = nat (j - 1);
                         p = pid (jobs s ! i);
                         s1 = s\<lparr>sent := sent s @ [(- pid (jobs s ! i), SIGCONT)]\<rparr>;
                         s2 = s1\<lparr>jobs := (jobs s1)[i := (jobs s1 ! i)\<lparr>state := FG\<rparr>]\<rparr>
                     in waitfg w p evs s2)
                else
                  (let p = j;
                       j' = pid2jid (jobs s) p;
                       s1 = s\<lparr>sent := sent s @ [(- p, SIGCONT)]\<rparr>
                   in if \<not> in_jobs (jobs s1) (j' - 1) then Some (Inl (OutOfBounds, s1), evs)
                      else
                        let i = nat (j' - 1);
                            s2 = s1\<lparr>jobs := (jobs s1)[i := (jobs s1 ! i)\<lparr>state := FG\<rparr>]\<rparr>
                        in waitfg w 0 evs s2))
             else Some (Inr s, evs))))"

subsection \<open>Sequences of operations on the job list\<close>

text \<open>
  A register is a call of \<^verbatim>\<open>addjob\<close>, a release a call of \<^verbatim>\<open>deletejob\<close>;
  \<open>run_ops\<close> performs a sequence of them, one after the other.
\<close>

datatype job_op = Register int int string | Release int

fun apply_op :: "shell \<Rightarrow> job_op \<Rightarrow> shell" where
  "apply_op s (Register p st cmd) = snd (addjob s p st cmd)"
| "apply_op s (Release p) = snd (deletejob s p)"

definition run_ops :: "shell \<Rightarrow> job_op list \<Rightarrow> shell" where
  "run_ops s ops = foldl apply_op s ops"

text \<open>
  The live jobs in the foreground state: the slots in use (\<open>pid\<close> not 0) whose state is
  \<open>FG\<close>.
\<close>

definition fg_jobs :: "job_t list \<Rightarrow> job_t list" where
  "fg_jobs js = filter (\<lambda>j. pid j \<noteq> 0 \<and> state j = FG) js"

section \<open>Properties\<close>

lemma length_initjobs: "length (initjobs js) = length js"
  by (simp add: initjobs_def)

subsection \<open>Searching and updating the array\<close>

lemma find_slot_Some:
  "find_slot P xs = Some i \<Longrightarrow> i < length xs \<and> P (xs ! i) \<and> (\<forall>k<i. \<not> P (xs ! k))"
proof (induction xs arbitrary: i)
  case Nil
  then show ?case by simp
next
  case (Cons x xs)
  show ?case
  proof (cases "P x")
    case True
    with Cons.prems show ?thesis by simp
  next
    case False
    with Cons.prems obtain i' where i': "find_slot P xs = Some i'" "i = Suc i'"
      by auto
    from Cons.IH [OF i'(1)] False i'(2) show ?thesis
      by (auto simp: less_Suc_eq_0_disj)
  qed
qed

lemma find_slot_None: "find_slot P xs = None \<Longrightarrow> \<forall>x\<in>set xs. \<not> P x"
  by (induction xs) (auto split: if_splits)

lemma find_slot_None_iff:
  "find_slot P xs = None \<longleftrightarrow> (\<forall>i<length xs. \<not> P (xs ! i))"
proof
  assume "find_slot P xs = None"
  from find_slot_None [OF this] show "\<forall>i<length xs. \<not> P (xs ! i)"
    by simp
next
  assume none: "\<forall>i<length xs. \<not> P (xs ! i)"
  show "find_slot P xs = None"
  proof (cases "find_slot P xs")
    case None
    then show ?thesis .
  next
    case (Some i)
    from find_slot_Some [OF Some] none show ?thesis
      by blast
  qed
qed

lemma job_overwrite:
  "(j :: job_t)\<lparr>pid := p, state := st, jid := n, cmdline := c\<rparr> =
   \<lparr>pid = p, jid = n, state = st, cmdline = c\<rparr>"
  by (cases j) simp

lemma clearjob_eq: "clearjob (j :: job_t) = \<lparr>pid = 0, jid = 0, state = UNDEF, cmdline = []\<rparr>"
  by (cases j) (simp add: clearjob_def)

lemma addjob_frame:
  assumes "addjob s p st cmd = (r, s')"
  shows "(r = 1 \<or> r = 0) \<and>
     ((r = 1) = (1 \<le> p \<and> (\<exists>i<length (jobs s). pid (jobs s ! i) = 0))) \<and>
     (r = 1 \<longrightarrow>
        (\<exists>i<length (jobs s). pid (jobs s ! i) = 0 \<and> (\<forall>k<i. pid (jobs s ! k) \<noteq> 0) \<and>
           jobs s' = (jobs s)[i := \<lparr>pid = p, jid = nextjid s, state = st, cmdline = cmd\<rparr>])) \<and>
     (r = 1 \<longrightarrow> nextjid s' = (if nextjid s + 1 > int MAXJOBS then 1 else nextjid s + 1)) \<and>
     (r = 1 \<longrightarrow> out s' =
        (if verbose s = 0 then out s
         else out s @ [''Added job ['' @ show_int (nextjid s) @ ''] '' @ show_int p @
                       '' '' @ cmd @ [CHR 0x0A]])) \<and>
     (r = 0 \<longrightarrow> jobs s' = jobs s \<and> nextjid s' = nextjid s \<and>
        out s' = (if p < 1 then out s
                  else out s @ [''Tried to create too many jobs'' @ [CHR 0x0A]])) \<and>
     verbose s' = verbose s \<and> check_fg s' = check_fg s \<and> sent s' = sent s"
proof (cases "p < 1")
  case True
  with assms show ?thesis by (auto simp: addjob_def)
next
  case False
  show ?thesis
  proof (cases "find_slot (\<lambda>j. pid j = 0) (jobs s)")
    case None
    then have full: "\<not> (\<exists>i<length (jobs s). pid (jobs s ! i) = 0)"
      by (simp add: find_slot_None_iff)
    from False None assms have "r = 0" "s' = s\<lparr>out := out s @
        [''Tried to create too many jobs'' @ [CHR 0x0A]]\<rparr>"
      by (auto simp: addjob_def)
    with False full show ?thesis by simp
  next
    case (Some i)
    from find_slot_Some [OF Some]
    have i: "i < length (jobs s)" "pid (jobs s ! i) = 0" "\<forall>k<i. pid (jobs s ! k) \<noteq> 0"
      by simp_all
    from False Some assms have r: "r = 1"
      and js: "jobs s' = (jobs s)[i := \<lparr>pid = p, jid = nextjid s, state = st, cmdline = cmd\<rparr>]"
      and nx: "nextjid s' = (if nextjid s + 1 > int MAXJOBS then 1 else nextjid s + 1)"
      and ou: "out s' =
        (if verbose s = 0 then out s
         else out s @ [''Added job ['' @ show_int (nextjid s) @ ''] '' @ show_int p @
                       '' '' @ cmd @ [CHR 0x0A]])"
      and rest: "verbose s' = verbose s" "check_fg s' = check_fg s" "sent s' = sent s"
      by (auto simp: addjob_def Let_def job_overwrite split: if_splits)
    from False i have ex: "1 \<le> p \<and> (\<exists>i<length (jobs s). pid (jobs s ! i) = 0)"
      by auto
    from r js nx ou rest i ex show ?thesis by auto
  qed
qed

lemma deletejob_frame:
  assumes "deletejob s p = (r, s')"
  shows "(r = 1 \<or> r = 0) \<and>
     ((r = 1) = (1 \<le> p \<and> (\<exists>i<length (jobs s). pid (jobs s ! i) = p))) \<and>
     (r = 1 \<longrightarrow>
        (\<exists>i<length (jobs s). pid (jobs s ! i) = p \<and> (\<forall>k<i. pid (jobs s ! k) \<noteq> p) \<and>
           jobs s' = (jobs s)[i := \<lparr>pid = 0, jid = 0, state = UNDEF, cmdline = []\<rparr>])) \<and>
     (r = 1 \<longrightarrow> nextjid s' = maxjid (jobs s') + 1) \<and>
     (r = 0 \<longrightarrow> s' = s) \<and>
     verbose s' = verbose s \<and> check_fg s' = check_fg s \<and> out s' = out s \<and> sent s' = sent s"
proof (cases "p < 1")
  case True
  with assms show ?thesis by (auto simp: deletejob_def)
next
  case False
  show ?thesis
  proof (cases "find_slot (\<lambda>j. pid j = p) (jobs s)")
    case None
    then have absent: "\<not> (\<exists>i<length (jobs s). pid (jobs s ! i) = p)"
      by (simp add: find_slot_None_iff)
    from False None assms have "r = 0" "s' = s"
      by (auto simp: deletejob_def)
    with absent show ?thesis by simp
  next
    case (Some i)
    from find_slot_Some [OF Some]
    have i: "i < length (jobs s)" "pid (jobs s ! i) = p" "\<forall>k<i. pid (jobs s ! k) \<noteq> p"
      by simp_all
    from False Some assms have r: "r = 1"
      and js: "jobs s' = (jobs s)[i := \<lparr>pid = 0, jid = 0, state = UNDEF, cmdline = []\<rparr>]"
      and nx: "nextjid s' = maxjid (jobs s') + 1"
      and rest: "verbose s' = verbose s" "check_fg s' = check_fg s" "out s' = out s" "sent s' = sent s"
      by (auto simp: deletejob_def Let_def clearjob_eq split: if_splits)
    from False i have ex: "1 \<le> p \<and> (\<exists>i<length (jobs s). pid (jobs s ! i) = p)"
      by auto
    from r js nx rest i ex show ?thesis by auto
  qed
qed

lemma length_jobs_addjob: "length (jobs (snd (addjob s p st cmd))) = length (jobs s)"
  by (simp add: addjob_def Let_def split: option.splits)

lemma length_jobs_deletejob: "length (jobs (snd (deletejob s p))) = length (jobs s)"
  by (simp add: deletejob_def Let_def split: option.splits)

lemma length_jobs_init_shell: "length (jobs init_shell) = MAXJOBS"
  by (simp add: init_shell_def initjobs_def)

subsection \<open>C1: a terminated child and its job\<close>

text \<open>
  C1: when the handler of SIGCHLD sees that the process of a job has terminated,
  normally or by any fatal signal, it deletes the job; for the interrupt signal it also
  prints \<^verbatim>\<open>job [<handle>] (<pid>) terminated by signal <N>\<close>.
  The code deletes the job after a normal exit and after SIGINT, and prints the notice
  for SIGINT. For any other fatal signal the call of \<^verbatim>\<open>deletejob\<close> is not reached:
  here job 102 is killed by signal 9 and the handler leaves the table as it was, the job
  still in slot 1.
\<close>

theorem sigchld_handler_keeps_killed_job:
  "let s = run_ops init_shell [Register 101 BG ''a'', Register 102 BG ''b''] in
     getjobpid (jobs s) 102 = Some 1 \<and>
     sigchld_handler [(102, WSignaled 9)] s = Inr s \<and>
     sigchld_handler [(102, WExited 0)] s = Inr (snd (deletejob s 102)) \<and>
     getjobpid (jobs (snd (deletejob s 102))) 102 = None \<and>
     sigchld_handler [(102, WSignaled SIGINT)] s =
       Inr ((snd (deletejob s 102))
         \<lparr>out := [''job [2] (102) terminated by signal 2'' @ [CHR 0x0A]]\<rparr>)"
  by code_simp

subsection \<open>C2: the relays with no foreground job\<close>

text \<open>
  C2: with no job in state Foreground the interrupt relay and the stop relay do nothing:
  no signal is sent, no table entry changes, no error is reported.
  \<^verbatim>\<open>fgpid\<close> returns 0 then, and both handlers go on with it: each calls
  \<^verbatim>\<open>kill(-0, sig)\<close>, which signals the shell's own process group, and
  \<^verbatim>\<open>sigtstp_handler\<close> then stores into \<^verbatim>\<open>jobs[pid2jid(0) - 1]\<close>, that is
  \<^verbatim>\<open>jobs[-1]\<close>.
\<close>

theorem relay_without_foreground_job_calls_kill:
  "let w = \<lparr>kill_rv = (\<lambda>p sg. 0), strerror_errno = []\<rparr>;
       s = run_ops init_shell [Register 101 BG ''a'']
   in fgpid (jobs s) = 0 \<and>
      sigint_handler w s = Inr (s\<lparr>sent := [(0, SIGINT)]\<rparr>) \<and>
      sigtstp_handler w s = Inl (OutOfBounds, s\<lparr>sent := [(0, SIGTSTP)]\<rparr>)"
  by code_simp

subsection \<open>C3: bg and fg with a job id\<close>

text \<open>
  C3: \<^verbatim>\<open>bg %n\<close> and \<^verbatim>\<open>fg %n\<close> act on the job that the lookup by job id finds:
  SIGCONT goes to that job's process group and that job's state is set.
  \<^verbatim>\<open>do_bgfg\<close> checks the argument with \<^verbatim>\<open>getjobjid\<close> and then works on
  \<^verbatim>\<open>jobs[n-1]\<close>. After job 1 has gone and two more jobs have come, job 3 (pid 103)
  is in slot 0 and job 4 (pid 104) in slot 2; both are then stopped. \<^verbatim>\<open>bg %3\<close>
  resumes pid 104 and marks it \<open>BG\<close>; job 3 stays stopped and is sent nothing.
\<close>

theorem do_bgfg_handle_acts_on_slot_index:
  "let w = \<lparr>kill_rv = (\<lambda>p sg. 0), strerror_errno = []\<rparr>;
       s0 = run_ops init_shell
         [Register 101 BG ''a'', Register 102 BG ''b'', Release 101,
          Register 103 BG ''c'', Register 104 BG ''d'']
   in case sigchld_handler [(103, WStopped 20), (104, WStopped 20)] s0 of
        Inl h \<Rightarrow> False
      | Inr s \<Rightarrow>
          getjobjid (jobs s) 3 = Some 0 \<and>
          map (\<lambda>j. (pid j, jid j, state j)) (take 3 (jobs s)) =
            [(103, 3, ST), (102, 2, BG), (104, 4, ST)] \<and>
          (case do_bgfg w [''bg'', ''%3''] [] s of
             Some (Inr s', evs) \<Rightarrow>
               sent s' = [(- 104, SIGCONT)] \<and>
               map (\<lambda>j. (pid j, jid j, state j)) (take 3 (jobs s')) =
                 [(103, 3, ST), (102, 2, BG), (104, 4, BG)] \<and>
               out s' = out s @ [''[3] (104) d'']
           | _ \<Rightarrow> False)"
  by code_simp

subsection \<open>C4: bg and fg with a process id\<close>

text \<open>
  C4: \<^verbatim>\<open>bg n\<close> and \<^verbatim>\<open>fg n\<close> with a process id \<open>n\<close> look for the job with
  pid \<open>n\<close>, act on it, and print \<^verbatim>\<open>(<n>): No such process\<close> with the same \<open>n\<close>
  when there is none.
  \<^verbatim>\<open>do_bgfg\<close> reads the number with \<^verbatim>\<open>atoi(argv[1]+1)\<close>, behind the first
  character, for a process id as for a job id: of \<^verbatim>\<open>1234\<close> it reads 234. The job
  with pid 1234 is reported as no such process 234, and when a job with pid 234 is
  there, that job is resumed.
\<close>

theorem do_bgfg_pid_drops_first_digit:
  "let w = \<lparr>kill_rv = (\<lambda>p sg. 0), strerror_errno = []\<rparr>;
       s = run_ops init_shell [Register 1234 BG ''a''];
       t = run_ops init_shell [Register 234 BG ''a'', Register 1234 BG ''b'']
   in getjobpid (jobs s) 1234 = Some 0 \<and>
      do_bgfg w [''bg'', ''1234''] [] s =
        Some (Inr (s\<lparr>out := [''(234): No such process'' @ [CHR 0x0A]]\<rparr>), []) \<and>
      do_bgfg w [''bg'', ''1234''] [] t =
        Some (Inr (t\<lparr>sent := [(- 234, SIGCONT)], out := [''[1] (234) a'']\<rparr>), [])"
  by code_simp

subsection \<open>C5: a relay whose kill fails\<close>

text \<open>
  C5, as stated: when the relay fails to deliver the signal to the foreground job's
  process group, the failure is reported and the shell goes on running.
  Both handlers call \<^verbatim>\<open>unix_error\<close>, which prints the message and calls
  \<^verbatim>\<open>exit(1)\<close>: with the foreground job 101 already gone, the shell ends with
  status 1.
\<close>

theorem relay_kill_failure_counterexample:
  "sigint_handler \<lparr>kill_rv = (\<lambda>p sg. if p = - 101 then - 1 else 0),
                   strerror_errno = ''No such process''\<rparr>
     (run_ops init_shell [Register 101 FG ''a'']) =
   Inl (Exit 1, (run_ops init_shell [Register 101 FG ''a''])
     \<lparr>sent := [(- 101, SIGINT)],
      out := [''kill error'' @ [CHR 0x0A] @ '': No such process'' @ [CHR 0x0A]]\<rparr>)"
  by code_simp

text \<open>
  C5, amended: when \<^verbatim>\<open>kill\<close> fails in the interrupt relay or in the stop relay, the
  failure is reported on stdout (\<^verbatim>\<open>kill error\<close>, a line break, a colon and the text
  of \<^verbatim>\<open>strerror(errno)\<close>) and the shell exits with status 1; the job list is left as
  it was.
\<close>

theorem relay_kill_failure_is_fatal:
  "(kill_rv w (- fgpid (jobs s)) SIGINT < 0 \<longrightarrow>
      sigint_handler w s =
        Inl (Exit 1, s\<lparr>sent := sent s @ [(- fgpid (jobs s), SIGINT)],
                        out := out s @ [''kill error'' @ [CHR 0x0A] @ '': '' @ strerror_errno w @ [CHR 0x0A]]\<rparr>)) \<and>
   (kill_rv w (- fgpid (jobs s)) SIGTSTP < 0 \<longrightarrow>
      sigtstp_handler w s =
        Inl (Exit 1, s\<lparr>sent := sent s @ [(- fgpid (jobs s), SIGTSTP)],
                        out := out s @ [''kill error'' @ [CHR 0x0A] @ '': '' @ strerror_errno w @ [CHR 0x0A]]\<rparr>))"
  by (simp add: sigint_handler_def sigtstp_handler_def unix_error_def Let_def)

theorem relay_kill_failure_is_fatal_witness:
  "kill_rv \<lparr>kill_rv = (\<lambda>p sg. - 1), strerror_errno = ''No such process''\<rparr>
     (- fgpid (jobs (run_ops init_shell [Register 101 FG ''a'']))) SIGINT < 0 \<and>
   sigint_handler \<lparr>kill_rv = (\<lambda>p sg. - 1), strerror_errno = ''No such process''\<rparr>
     (run_ops init_shell [Register 101 FG ''a'']) =
   Inl (Exit 1, (run_ops init_shell [Register 101 FG ''a''])
     \<lparr>sent := [(- 101, SIGINT)],
      out := [''kill error'' @ [CHR 0x0A] @ '': No such process'' @ [CHR 0x0A]]\<rparr>) \<and>
   sigtstp_handler \<lparr>kill_rv = (\<lambda>p sg. - 1), strerror_errno = ''No such process''\<rparr>
     (run_ops init_shell [Register 101 FG ''a'']) =
   Inl (Exit 1, (run_ops init_shell [Register 101 FG ''a''])
     \<lparr>sent := [(- 101, SIGTSTP)],
      out := [''kill error'' @ [CHR 0x0A] @ '': No such process'' @ [CHR 0x0A]]\<rparr>)"
proof -
  let ?w = "\<lparr>kill_rv = (\<lambda>p sg. - 1), strerror_errno = ''No such process''\<rparr>"
  let ?s = "run_ops init_shell [Register 101 FG ''a'']"
  have f: "fgpid (jobs ?s) = 101"
    by code_simp
  have o: "out ?s = []" "sent ?s = []"
    by code_simp+
  from relay_kill_failure_is_fatal [of ?w ?s] f o show ?thesis
    by simp
qed

subsection \<open>C6: waitfg and wake-ups\<close>

text \<open>
  C6: \<^verbatim>\<open>waitfg\<close> suspends again each time it is woken with the flag
  \<^verbatim>\<open>check_fg\<close> unset, however often, and returns only once it has seen the flag set.
  The code pauses, tests the flag once and pauses at most once more. Two background
  children that end while job 103 runs in the foreground wake it twice; it returns with
  the flag unset and job 103 still the foreground job.
\<close>

theorem waitfg_returns_after_two_wakeups:
  "let w = \<lparr>kill_rv = (\<lambda>p sg. 0), strerror_errno = []\<rparr>;
       s = run_ops init_shell
         [Register 101 BG ''a'', Register 102 BG ''b'', Register 103 FG ''c'']
   in case waitfg w 103 [SIGCHLD_ev [(101, WExited 0)], SIGCHLD_ev [(102, WExited 0)]] s of
        Some (Inr s', evs) \<Rightarrow>
          check_fg s' = 0 \<and> fgpid (jobs s') = 103 \<and> evs = [] \<and>
          map (\<lambda>j. (pid j, jid j, state j)) (take 3 (jobs s')) =
            [(0, 0, UNDEF), (0, 0, UNDEF), (103, 3, FG)]
      | _ \<Rightarrow> False"
  by code_simp

subsection \<open>C7: the job id after a release\<close>

text \<open>
  C7, as stated: from the empty table, after three registers (job ids 1, 2, 3) and the
  release of job 2, \<^verbatim>\<open>nextjid\<close> is 2 and the next register gets job id 2.
  \<^verbatim>\<open>deletejob\<close> sets \<^verbatim>\<open>nextjid\<close> to \<^verbatim>\<open>maxjid(jobs) + 1\<close>, and job 3 is still
  live: \<^verbatim>\<open>nextjid\<close> is 4 and the next job gets job id 4, in the slot that job 2 left.
\<close>

theorem handle_after_release_counterexample:
  "nextjid (run_ops init_shell
      [Register 101 BG ''a'', Register 102 BG ''b'', Register 103 BG ''c'', Release 102]) \<noteq> 2 \<and>
   jid (jobs (run_ops init_shell
      [Register 101 BG ''a'', Register 102 BG ''b'', Register 103 BG ''c'', Release 102,
       Register 104 BG ''d'']) ! 1) \<noteq> 2 \<and>
   map (\<lambda>j. (pid j, jid j)) (take 3 (jobs (run_ops init_shell
      [Register 101 BG ''a'', Register 102 BG ''b'', Register 103 BG ''c'', Release 102,
       Register 104 BG ''d'']))) = [(101, 1), (104, 4), (103, 3)]"
  by code_simp

text \<open>
  C7, amended: from the empty table, after three registers (which get job ids 1, 2, 3)
  and the release of the job with id 2, \<^verbatim>\<open>nextjid\<close> is the largest live job id plus
  one, which is 4, and the next register succeeds and gives its job the id 4, in slot 1.
\<close>

theorem handle_after_release:
  assumes "0 < p1" and "0 < p2" and "0 < p3" and "0 < p4" and "p1 \<noteq> p2"
  shows "let s3 = run_ops init_shell [Register p1 st1 c1, Register p2 st2 c2, Register p3 st3 c3];
             s4 = run_ops s3 [Release p2]
         in map jid (take 3 (jobs s3)) = [1, 2, 3] \<and>
            maxjid (jobs s4) = 3 \<and>
            nextjid s4 = maxjid (jobs s4) + 1 \<and>
            nextjid s4 = 4 \<and>
            fst (addjob s4 p4 st4 c4) = 1 \<and>
            jobs (snd (addjob s4 p4 st4 c4)) ! 1 = \<lparr>pid = p4, jid = 4, state = st4, cmdline = c4\<rparr>"
  using assms
  by (simp add: run_ops_def addjob_def deletejob_def maxjid_def clearjob_def UNDEF_def MAXJOBS_def
      init_shell_def initjobs_def numeral_eq_Suc Let_def)

theorem handle_after_release_witness:
  "(0 :: int) < 101 \<and> (0 :: int) < 102 \<and> (0 :: int) < 103 \<and> (0 :: int) < 104 \<and>
   (101 :: int) \<noteq> 102 \<and>
   (let s3 = run_ops init_shell
          [Register 101 BG ''a'', Register 102 BG ''b'', Register 103 BG ''c''];
        s4 = run_ops s3 [Release 102]
    in map jid (take 3 (jobs s3)) = [1, 2, 3] \<and>
       maxjid (jobs s4) = 3 \<and>
       nextjid s4 = maxjid (jobs s4) + 1 \<and>
       nextjid s4 = 4 \<and>
       fst (addjob s4 104 BG ''d'') = 1 \<and>
       jobs (snd (addjob s4 104 BG ''d'')) ! 1 =
         \<lparr>pid = 104, jid = 4, state = BG, cmdline = ''d''\<rparr>)"
  using handle_after_release [of 101 102 103 104 BG "''a''" BG "''b''" BG "''c''" BG "''d''"]
  by simp

subsection \<open>C8: job ids of live jobs\<close>

text \<open>
  C8: over every sequence of \<^verbatim>\<open>addjob\<close> and \<^verbatim>\<open>deletejob\<close> from the empty table no
  two live jobs have the same job id.
  \<^verbatim>\<open>addjob\<close> sets \<^verbatim>\<open>nextjid\<close> back to 1 once it has passed \<open>MAXJOBS\<close>, whether or
  not job 1 is live. Fifteen registers, the release of job 2, and a register that takes
  id 16 leave \<^verbatim>\<open>nextjid\<close> at 1 with slot 15 free; the next register puts a second job
  with id 1 there, while the first one is still in slot 0.
\<close>

theorem jid_reused_while_live:
  "let s = run_ops init_shell
         (map (\<lambda>i. Register (100 + int i) BG ''x'') [1..<16] @
          [Release 102, Register 116 BG ''x'', Register 117 BG ''x''])
   in map (\<lambda>j. (pid j, jid j)) (jobs s) =
        [(101, 1), (116, 16), (103, 3), (104, 4), (105, 5), (106, 6), (107, 7), (108, 8),
         (109, 9), (110, 10), (111, 11), (112, 12), (113, 13), (114, 14), (115, 15),
         (117, 1)] \<and>
      pid (jobs s ! 0) = 101 \<and> jid (jobs s ! 0) = 1 \<and>
      pid (jobs s ! 15) = 117 \<and> jid (jobs s ! 15) = 1 \<and>
      getjobjid (jobs s) 1 = Some 0"
  by code_simp

subsection \<open>C9: at most one foreground job\<close>

text \<open>
  C9: over every sequence of register and release operations at most one live job has
  state Foreground. The code says so itself (\<^verbatim>\<open>At most 1 job can be in the FG state\<close>),
  and \<^verbatim>\<open>eval\<close> keeps to it by calling \<^verbatim>\<open>waitfg\<close> after it has added a foreground
  job. \<^verbatim>\<open>waitfg\<close> returns after its second wake-up whatever the flag says, so the
  next foreground command is registered while the first is still in the foreground.
  The calls below are the ones \<^verbatim>\<open>eval\<close> makes for two background commands and a
  foreground one (\<^verbatim>\<open>addjob\<close> three times, then \<^verbatim>\<open>waitfg\<close>), the two background
  children ending meanwhile, and for the next foreground command (\<^verbatim>\<open>addjob\<close>); the
  second run is a single foreground child that takes two interrupts from the keyboard
  and lives on. Both end with two live jobs in state \<open>FG\<close>.
\<close>

theorem two_foreground_jobs_after_waitfg:
  "let w = \<lparr>kill_rv = (\<lambda>p sg. 0), strerror_errno = []\<rparr>;
       s0 = run_ops init_shell
         [Register 101 BG ''a'', Register 102 BG ''b'', Register 103 FG ''c''];
       t0 = run_ops init_shell [Register 103 FG ''c'']
   in (case waitfg w 103 [SIGCHLD_ev [(101, WExited 0)], SIGCHLD_ev [(102, WExited 0)]] s0 of
         Some (Inr s1, evs) \<Rightarrow>
           map (\<lambda>j. (pid j, jid j, state j)) (fg_jobs (jobs s1)) = [(103, 3, FG)] \<and>
           fst (addjob s1 104 FG ''d'') = 1 \<and>
           map (\<lambda>j. (pid j, jid j, state j)) (fg_jobs (jobs (snd (addjob s1 104 FG ''d'')))) =
             [(104, 4, FG), (103, 3, FG)]
       | _ \<Rightarrow> False) \<and>
      (case waitfg w 103 [SIGINT_ev, SIGINT_ev] t0 of
         Some (Inr t1, evs) \<Rightarrow>
           sent t1 = [(- 103, SIGINT), (- 103, SIGINT)] \<and>
           fst (addjob t1 104 FG ''d'') = 1 \<and>
           map (\<lambda>j. (pid j, jid j, state j)) (fg_jobs (jobs (snd (addjob t1 104 FG ''d'')))) =
             [(103, 1, FG), (104, 2, FG)]
       | _ \<Rightarrow> False)"
  by code_simp

subsection \<open>C10: what addjob and deletejob change\<close>

text \<open>
  C10: \<^verbatim>\<open>addjob\<close> fills the empty slot (pid 0) of lowest index and leaves every other
  slot as it was; \<^verbatim>\<open>deletejob\<close> clears the first slot whose pid is the given one and
  leaves every other slot as it was; besides that slot only \<^verbatim>\<open>nextjid\<close> changes.
  \<^verbatim>\<open>addjob\<close> does so, and returns 1, exactly when the pid is at least 1 and some slot
  is empty; \<^verbatim>\<open>deletejob\<close> does so, and returns 1, exactly when the pid is at least 1
  and some slot holds it. Otherwise they return 0 and the table and \<^verbatim>\<open>nextjid\<close> are
  as before. The fields \<open>verbose\<close>, \<open>check_fg\<close> and \<open>sent\<close> never change;
  \<^verbatim>\<open>deletejob\<close> prints nothing, and \<^verbatim>\<open>addjob\<close> prints one line when the table is
  full and one when it has added a job and \<open>verbose\<close> is set.
\<close>

theorem addjob_deletejob_frame:
  "(case addjob s p st cmd of (r, s') \<Rightarrow>
      (r = 1 \<or> r = 0) \<and>
      ((r = 1) = (1 \<le> p \<and> (\<exists>i<length (jobs s). pid (jobs s ! i) = 0))) \<and>
      (r = 1 \<longrightarrow>
         (\<exists>i<length (jobs s). pid (jobs s ! i) = 0 \<and> (\<forall>k<i. pid (jobs s ! k) \<noteq> 0) \<and>
            jobs s' = (jobs s)[i := \<lparr>pid = p, jid = nextjid s, state = st, cmdline = cmd\<rparr>])) \<and>
      (r = 1 \<longrightarrow> nextjid s' = (if nextjid s + 1 > int MAXJOBS then 1 else nextjid s + 1)) \<and>
      (r = 1 \<longrightarrow> out s' =
         (if verbose s = 0 then out s
          else out s @ [''Added job ['' @ show_int (nextjid s) @ ''] '' @ show_int p @
                        '' '' @ cmd @ [CHR 0x0A]])) \<and>
      (r = 0 \<longrightarrow> jobs s' = jobs s \<and> nextjid s' = nextjid s \<and>
         out s' = (if p < 1 then out s
                   else out s @ [''Tried to create too many jobs'' @ [CHR 0x0A]])) \<and>
      verbose s' = verbose s \<and> check_fg s' = check_fg s \<and> sent s' = sent s) \<and>
   (case deletejob s q of (r, s') \<Rightarrow>
      (r = 1 \<or> r = 0) \<and>
      ((r = 1) = (1 \<le> q \<and> (\<exists>i<length (jobs s). pid (jobs s ! i) = q))) \<and>
      (r = 1 \<longrightarrow>
         (\<exists>i<length (jobs s). pid (jobs s ! i) = q \<and> (\<forall>k<i. pid (jobs s ! k) \<noteq> q) \<and>
            jobs s' = (jobs s)[i := \<lparr>pid = 0, jid = 0, state = UNDEF, cmdline = []\<rparr>])) \<and>
      (r = 1 \<longrightarrow> nextjid s' = maxjid (jobs s') + 1) \<and>
      (r = 0 \<longrightarrow> s' = s) \<and>
      verbose s' = verbose s \<and> check_fg s' = check_fg s \<and> out s' = out s \<and>
      sent s' = sent s)"
proof -
  obtain r s' where a: "addjob s p st cmd = (r, s')"
    by (cases "addjob s p st cmd")
  obtain r2 s2 where d: "deletejob s q = (r2, s2)"
    by (cases "deletejob s q")
  show ?thesis
    unfolding a d prod.case
    using addjob_frame [OF a] deletejob_frame [OF d] by (rule conjI)
qed

theorem addjob_deletejob_frame_witness:
  "(\<exists>i<length (jobs (run_ops init_shell [Register 101 BG ''a''])).
      pid (jobs (run_ops init_shell [Register 101 BG ''a'']) ! i) = 0) \<and>
   fst (addjob (run_ops init_shell [Register 101 BG ''a'']) 102 FG ''b'') = 1 \<and>
   (\<exists>i<length (jobs (run_ops init_shell [Register 101 BG ''a''])).
      jobs (snd (addjob (run_ops init_shell [Register 101 BG ''a'']) 102 FG ''b'')) =
      (jobs (run_ops init_shell [Register 101 BG ''a'']))
        [i := \<lparr>pid = 102, jid = nextjid (run_ops init_shell [Register 101 BG ''a'']),
               state = FG, cmdline = ''b''\<rparr>]) \<and>
   (\<exists>i<length (jobs (run_ops init_shell [Register 101 BG ''a''])).
      pid (jobs (run_ops init_shell [Register 101 BG ''a'']) ! i) = 101) \<and>
   fst (deletejob (run_ops init_shell [Register 101 BG ''a'']) 101) = 1 \<and>
   (\<exists>i<length (jobs (run_ops init_shell [Register 101 BG ''a''])).
      jobs (snd (deletejob (run_ops init_shell [Register 101 BG ''a'']) 101)) =
      (jobs (run_ops init_shell [Register 101 BG ''a'']))
        [i := \<lparr>pid = 0, jid = 0, state = UNDEF, cmdline = []\<rparr>]) \<and>
   fst (addjob (run_ops init_shell [Register 101 BG ''a'']) 0 FG ''b'') = 0 \<and>
   jobs (snd (addjob (run_ops init_shell [Register 101 BG ''a'']) 0 FG ''b'')) =
     jobs (run_ops init_shell [Register 101 BG ''a'']) \<and>
   fst (deletejob (run_ops init_shell [Register 101 BG ''a'']) 0) = 0 \<and>
   snd (deletejob (run_ops init_shell [Register 101 BG ''a'']) 0) =
     run_ops init_shell [Register 101 BG ''a'']"
proof -
  let ?s = "run_ops init_shell [Register 101 BG ''a'']"
  obtain r s' where a: "addjob ?s 102 FG ''b'' = (r, s')"
    by (cases "addjob ?s 102 FG ''b''")
  obtain r2 s2 where d: "deletejob ?s 101 = (r2, s2)"
    by (cases "deletejob ?s 101")
  obtain r3 s3 where a0: "addjob ?s 0 FG ''b'' = (r3, s3)"
    by (cases "addjob ?s 0 FG ''b''")
  obtain r4 s4 where d0: "deletejob ?s 0 = (r4, s4)"
    by (cases "deletejob ?s 0")
  have "1 < length (jobs ?s) \<and> pid (jobs ?s ! 1) = 0"
    by code_simp
  then have free: "\<exists>i<length (jobs ?s). pid (jobs ?s ! i) = 0"
    by blast
  have "0 < length (jobs ?s) \<and> pid (jobs ?s ! 0) = 101"
    by code_simp
  then have held: "\<exists>i<length (jobs ?s). pid (jobs ?s ! i) = 101"
    by blast
  note T = addjob_deletejob_frame
    [where s = ?s and p = 102 and st = FG and cmd = "''b''" and q = 101,
     unfolded a d prod.case]
  note T0 = addjob_deletejob_frame
    [where s = ?s and p = 0 and st = FG and cmd = "''b''" and q = 0,
     unfolded a0 d0 prod.case]
  note A = T [THEN conjunct1] and D = T [THEN conjunct2]
  note A0 = T0 [THEN conjunct1] and D0 = T0 [THEN conjunct2]
  from A [THEN conjunct2, THEN conjunct1] free have r: "r = 1"
    by simp
  from A [THEN conjunct2, THEN conjunct2, THEN conjunct1] r
  have filled: "\<exists>i<length (jobs ?s). jobs s' =
      (jobs ?s)[i := \<lparr>pid = 102, jid = nextjid ?s, state = FG, cmdline = ''b''\<rparr>]"
    by blast
  from D [THEN conjunct2, THEN conjunct1] held have r2: "r2 = 1"
    by simp
  from D [THEN conjunct2, THEN conjunct2, THEN conjunct1] r2
  have cleared: "\<exists>i<length (jobs ?s). jobs s2 =
      (jobs ?s)[i := \<lparr>pid = 0, jid = 0, state = UNDEF, cmdline = []\<rparr>]"
    by blast
  from A0 [THEN conjunct1] A0 [THEN conjunct2, THEN conjunct1] have r3: "r3 = 0"
    by simp
  from A0 [THEN conjunct2, THEN conjunct2, THEN conjunct2, THEN conjunct2, THEN conjunct2,
           THEN conjunct1] r3
  have same: "jobs s3 = jobs ?s"
    by blast
  from D0 [THEN conjunct1] D0 [THEN conjunct2, THEN conjunct1] have r4: "r4 = 0"
    by simp
  from D0 [THEN conjunct2, THEN conjunct2, THEN conjunct2, THEN conjunct2, THEN conjunct1] r4
  have same2: "s4 = ?s"
    by blast
  from free held r filled r2 cleared r3 same r4 same2 show ?thesis
    unfolding a d a0 d0 fst_conv snd_conv by blast
qed

end
